theory Spec2Isabelle
  imports Complex_Main
begin

section \<open>The data model\<close>

text \<open>
  The header declares the class template \<open>Vec3<T>\<close> with three public members
  \<open>x\<close>, \<open>y\<close>, \<open>z\<close> of type \<open>T\<close>. The template parameter is a type variable;
  each function below asks of it only the operations its body uses.

  Objects live in a store: a reference parameter (\<open>const Vec3<T>&\<close>, \<open>Vec3<T>&\<close>) and
  the receiver \<open>this\<close> are addresses, so that two parameters may denote the same object.
  Every function takes the store and returns its result with the store it leaves.
\<close>

record 'a Vec3 =
  x :: 'a
  y :: 'a
  z :: 'a

type_synonym addr = nat

type_synonym 'a store = "addr \<Rightarrow> 'a Vec3"

subsection \<open>Constructors of \<open>mfcg::Vec3\<close>\<close>

text \<open>\<open>Vec3() : x(T(0)), y(T(0)), z(T(0))\<close>\<close>

definition Vec3_ctor0 :: "'a::zero Vec3" where
  "Vec3_ctor0 = \<lparr>x = 0, y = 0, z = 0\<rparr>"

text \<open>\<open>Vec3(const T& t) : x(t), y(t), z(t)\<close>\<close>

definition Vec3_ctor1 :: "'a \<Rightarrow> 'a Vec3" where
  "Vec3_ctor1 t = \<lparr>x = t, y = t, z = t\<rparr>"

text \<open>\<open>Vec3(T _x, T _y, T _z) : x(_x), y(_y), z(_z)\<close>\<close>

definition Vec3_ctor3 :: "'a \<Rightarrow> 'a \<Rightarrow> 'a \<Rightarrow> 'a Vec3" where
  "Vec3_ctor3 px py pz = \<lparr>x = px, y = py, z = pz\<rparr>"

subsection \<open>The minimal header \<open>MFCG::Vec3\<close>\<close>

text \<open>
  The second header declares a class of the same name in namespace \<open>MFCG\<close>, with the
  three constructors and the three members only.
\<close>

record 'a MFCG_Vec3 =
  MFCG_x :: 'a
  MFCG_y :: 'a
  MFCG_z :: 'a

definition MFCG_Vec3_ctor0 :: "'a::zero MFCG_Vec3" where
  "MFCG_Vec3_ctor0 = \<lparr>MFCG_x = 0, MFCG_y = 0, MFCG_z = 0\<rparr>"

definition MFCG_Vec3_ctor1 :: "'a \<Rightarrow> 'a MFCG_Vec3" where
  "MFCG_Vec3_ctor1 t = \<lparr>MFCG_x = t, MFCG_y = t, MFCG_z = t\<rparr>"

definition MFCG_Vec3_ctor3 :: "'a \<Rightarrow> 'a \<Rightarrow> 'a \<Rightarrow> 'a MFCG_Vec3" where
  "MFCG_Vec3_ctor3 px py pz = \<lparr>MFCG_x = px, MFCG_y = py, MFCG_z = pz\<rparr>"

section \<open>The square root at each component type\<close>

text \<open>
  \<open>sqrt\<close> comes from \<open><cmath>\<close>, not from the repository, so the functions that call it
  take it as the parameter \<open>sqrtT :: T \<Rightarrow> T\<close>: the library call followed by the
  conversion of its result to the return type \<open>T\<close>.

  For \<open>Vec3f\<close> and \<open>Vec3d\<close> the components are idealised as real numbers and \<open>sqrtT\<close>
  is the real square root \<^const>\<open>sqrt\<close>; rounding is not modelled.

  For \<open>Vec3i\<close> the components are mathematical integers (signed overflow is undefined in
  C++ and not modelled). \<open>sqrt\<close> of an \<open>int\<close> computes in \<open>double\<close>, and the \<open>return\<close>
  into \<open>T = int\<close> truncates; on the non-negative sums of squares the functions pass, that
  is the floor of the real square root.
\<close>

definition sqrt_int :: "int \<Rightarrow> int" where
  "sqrt_int n = \<lfloor>sqrt (real_of_int n)\<rfloor>"

section \<open>Member functions of \<open>mfcg::Vec3\<close>\<close>

text \<open>\<open>T magnitude() { return sqrt(x * x + y * y + z * z); }\<close>\<close>

definition Vec3_magnitude :: "('a \<Rightarrow> 'a) \<Rightarrow> addr \<Rightarrow> 'a::{times,plus} store \<Rightarrow> 'a \<times> 'a store" where
  "Vec3_magnitude sqrtT this \<sigma> =
     (sqrtT (x (\<sigma> this) * x (\<sigma> this) + y (\<sigma> this) * y (\<sigma> this) + z (\<sigma> this) * z (\<sigma> this)), \<sigma>)"

text \<open>\<open>T sqrMagnitude() { return x * x + y * y + z * z; }\<close>\<close>

definition Vec3_sqrMagnitude :: "addr \<Rightarrow> 'a::{times,plus} store \<Rightarrow> 'a \<times> 'a store" where
  "Vec3_sqrMagnitude this \<sigma> =
     (x (\<sigma> this) * x (\<sigma> this) + y (\<sigma> this) * y (\<sigma> this) + z (\<sigma> this) * z (\<sigma> this), \<sigma>)"

text \<open>
  \<open>Vec3<T>& normalize()\<close>: reads the length, and when \<open>len > 0\<close> multiplies the three
  members in turn by \<open>lenInv = 1 / len\<close>; returns \<open>*this\<close>, that is the receiver's
  address. The quotient \<open>1 / len\<close> is the division of \<open>T\<close>: at \<open>int\<close> it is integer
  division, where HOL's \<open>div\<close> and C++'s truncation agree since both operands are
  positive.
\<close>

definition Vec3_normalize ::
  "('a \<Rightarrow> 'a) \<Rightarrow> addr \<Rightarrow> 'a::{times,plus,zero,one,ord,divide} store \<Rightarrow> addr \<times> 'a store" where
  "Vec3_normalize sqrtT this \<sigma> =
     (let (len, \<sigma>1) = Vec3_magnitude sqrtT this \<sigma> in
      if len > 0 then
        let lenInv = divide 1 len;
            \<sigma>2 = \<sigma>1(this := (\<sigma>1 this)\<lparr>x := x (\<sigma>1 this) * lenInv\<rparr>);
            \<sigma>3 = \<sigma>2(this := (\<sigma>2 this)\<lparr>y := y (\<sigma>2 this) * lenInv\<rparr>);
            \<sigma>4 = \<sigma>3(this := (\<sigma>3 this)\<lparr>z := z (\<sigma>3 this) * lenInv\<rparr>)
        in (this, \<sigma>4)
      else (this, \<sigma>1))"

text \<open>\<open>T dot(const Vec3<T>& v) { return x * v.x + y * v.y + z * v.z; }\<close>\<close>

definition Vec3_dot :: "addr \<Rightarrow> addr \<Rightarrow> 'a::{times,plus} store \<Rightarrow> 'a \<times> 'a store" where
  "Vec3_dot this v \<sigma> =
     (x (\<sigma> this) * x (\<sigma> v) + y (\<sigma> this) * y (\<sigma> v) + z (\<sigma> this) * z (\<sigma> v), \<sigma>)"

text \<open>\<open>Vec3<T> cross(const Vec3<T>& v)\<close>\<close>

definition Vec3_cross :: "addr \<Rightarrow> addr \<Rightarrow> 'a::{times,minus} store \<Rightarrow> 'a Vec3 \<times> 'a store" where
  "Vec3_cross this v \<sigma> =
     (Vec3_ctor3
        (y (\<sigma> this) * z (\<sigma> v) - z (\<sigma> this) * y (\<sigma> v))
        (z (\<sigma> this) * x (\<sigma> v) - x (\<sigma> this) * z (\<sigma> v))
        (x (\<sigma> this) * y (\<sigma> v) - y (\<sigma> this) * x (\<sigma> v)), \<sigma>)"

text \<open>\<open>Vec3<T> operator +(const Vec3<T>& v)\<close>\<close>

definition Vec3_operator_plus :: "addr \<Rightarrow> addr \<Rightarrow> 'a::plus store \<Rightarrow> 'a Vec3 \<times> 'a store" where
  "Vec3_operator_plus this v \<sigma> =
     (Vec3_ctor3 (x (\<sigma> this) + x (\<sigma> v)) (y (\<sigma> this) + y (\<sigma> v)) (z (\<sigma> this) + z (\<sigma> v)), \<sigma>)"

text \<open>\<open>Vec3<T> operator -(const Vec3<T>& v)\<close>\<close>

definition Vec3_operator_minus :: "addr \<Rightarrow> addr \<Rightarrow> 'a::minus store \<Rightarrow> 'a Vec3 \<times> 'a store" where
  "Vec3_operator_minus this v \<sigma> =
     (Vec3_ctor3 (x (\<sigma> this) - x (\<sigma> v)) (y (\<sigma> this) - y (\<sigma> v)) (z (\<sigma> this) - z (\<sigma> v)), \<sigma>)"

text \<open>\<open>Vec3<T> operator *(const T& s)\<close>: the scalar is only read, so it is passed as a value.\<close>

definition Vec3_operator_times :: "addr \<Rightarrow> 'a \<Rightarrow> 'a::times store \<Rightarrow> 'a Vec3 \<times> 'a store" where
  "Vec3_operator_times this s \<sigma> =
     (Vec3_ctor3 (x (\<sigma> this) * s) (y (\<sigma> this) * s) (z (\<sigma> this) * s), \<sigma>)"

section \<open>Free functions of namespace \<open>mfcg\<close>\<close>

text \<open>\<open>T magnitude(const Vec3<T>& v)\<close>\<close>

definition magnitude :: "('a \<Rightarrow> 'a) \<Rightarrow> addr \<Rightarrow> 'a::{times,plus} store \<Rightarrow> 'a \<times> 'a store" where
  "magnitude sqrtT v \<sigma> =
     (sqrtT (x (\<sigma> v) * x (\<sigma> v) + y (\<sigma> v) * y (\<sigma> v) + z (\<sigma> v) * z (\<sigma> v)), \<sigma>)"

text \<open>\<open>T sqrMagnitude(const Vec3<T>& v)\<close>\<close>

definition sqrMagnitude :: "addr \<Rightarrow> 'a::{times,plus} store \<Rightarrow> 'a \<times> 'a store" where
  "sqrMagnitude v \<sigma> =
     (x (\<sigma> v) * x (\<sigma> v) + y (\<sigma> v) * y (\<sigma> v) + z (\<sigma> v) * z (\<sigma> v), \<sigma>)"

text \<open>
  \<open>void normalize(Vec3<T>& v)\<close>: the same body on the referenced object, calling the free
  \<open>magnitude\<close>; it returns nothing. (The name is suffixed: HOL has a constant
  \<open>normalize\<close>.)
\<close>

definition normalize_free ::
  "('a \<Rightarrow> 'a) \<Rightarrow> addr \<Rightarrow> 'a::{times,plus,zero,one,ord,divide} store \<Rightarrow> unit \<times> 'a store" where
  "normalize_free sqrtT v \<sigma> =
     (let (len, \<sigma>1) = magnitude sqrtT v \<sigma> in
      if len > 0 then
        let lenInv = divide 1 len;
            \<sigma>2 = \<sigma>1(v := (\<sigma>1 v)\<lparr>x := x (\<sigma>1 v) * lenInv\<rparr>);
            \<sigma>3 = \<sigma>2(v := (\<sigma>2 v)\<lparr>y := y (\<sigma>2 v) * lenInv\<rparr>);
            \<sigma>4 = \<sigma>3(v := (\<sigma>3 v)\<lparr>z := z (\<sigma>3 v) * lenInv\<rparr>)
        in ((), \<sigma>4)
      else ((), \<sigma>1))"

text \<open>\<open>T dot(const Vec3<T>& a, const Vec3<T>& b)\<close>\<close>

definition dot :: "addr \<Rightarrow> addr \<Rightarrow> 'a::{times,plus} store \<Rightarrow> 'a \<times> 'a store" where
  "dot a b \<sigma> =
     (x (\<sigma> a) * x (\<sigma> b) + y (\<sigma> a) * y (\<sigma> b) + z (\<sigma> a) * z (\<sigma> b), \<sigma>)"

text \<open>
  \<open>Vec3<T> cross(const Vec3<T> a, const Vec3<T>& b)\<close>: the first parameter is declared
  without \<open>&\<close>, so it is a copy of the caller's object: a value, not an address.
\<close>

definition cross :: "'a Vec3 \<Rightarrow> addr \<Rightarrow> 'a::{times,minus} store \<Rightarrow> 'a Vec3 \<times> 'a store" where
  "cross a b \<sigma> =
     (Vec3_ctor3
        (y a * z (\<sigma> b) - z a * y (\<sigma> b))
        (z a * x (\<sigma> b) - x a * z (\<sigma> b))
        (x a * y (\<sigma> b) - y a * x (\<sigma> b)), \<sigma>)"

section \<open>Helper facts\<close>

lemma sqrt_25: "sqrt 25 = 5"
  by (rule real_sqrt_unique) simp_all

lemma sqrt_int_0: "sqrt_int 0 = 0"
  by (simp add: sqrt_int_def)

lemma sqrt_int_4: "sqrt_int 4 = 2"
  by (simp add: sqrt_int_def)

lemma sqrt_int_25: "sqrt_int 25 = 5"
  by (simp add: sqrt_int_def sqrt_25)

text \<open>The three assignments of \<open>normalize\<close> taken together.\<close>

lemma Vec3_normalize_store:
  "snd (Vec3_normalize sqrtT v \<sigma>) =
     (let len = fst (Vec3_magnitude sqrtT v \<sigma>) in
      if len > 0
      then \<sigma>(v := (\<sigma> v)\<lparr>x := x (\<sigma> v) * divide 1 len,
                           y := y (\<sigma> v) * divide 1 len,
                           z := z (\<sigma> v) * divide 1 len\<rparr>)
      else \<sigma>)"
  by (simp add: Vec3_normalize_def Vec3_magnitude_def Let_def)

lemma Vec3_normalize_returns_this: "fst (Vec3_normalize sqrtT v \<sigma>) = v"
  by (simp add: Vec3_normalize_def Vec3_magnitude_def Let_def)

lemma Vec3_normalize_other_objects:
  "p \<noteq> v \<Longrightarrow> snd (Vec3_normalize sqrtT v \<sigma>) p = \<sigma> p"
  by (simp add: Vec3_normalize_store Let_def)

section \<open>Normalising a vector of non-positive length\<close>

text \<open>
  Claim C1. When the magnitude of the vector is not strictly positive, \<open>normalize\<close> in the
  member form and in the free form leaves the whole store, and so the three components
  of the vector, as it found it; the functions have no error result to signal, and the
  reciprocal \<open>1 / len\<close> is not computed.
\<close>

theorem normalize_nonpositive_unchanged:
  assumes "\<not> fst (Vec3_magnitude sqrtT v \<sigma>) > 0"
  shows "Vec3_normalize sqrtT v \<sigma> = (v, \<sigma>) \<and> normalize_free sqrtT v \<sigma> = ((), \<sigma>)"
  using assms
  by (simp add: Vec3_normalize_def normalize_free_def Vec3_magnitude_def magnitude_def)

theorem normalize_nonpositive_unchanged_witness:
  "\<not> fst (Vec3_magnitude sqrt 0 (\<lambda>_. Vec3_ctor0 :: real Vec3)) > 0
   \<and> Vec3_normalize sqrt 0 (\<lambda>_. Vec3_ctor0 :: real Vec3) = (0, \<lambda>_. Vec3_ctor0)
   \<and> normalize_free sqrt 0 (\<lambda>_. Vec3_ctor0 :: real Vec3) = ((), \<lambda>_. Vec3_ctor0)"
proof -
  have h: "\<not> fst (Vec3_magnitude sqrt 0 (\<lambda>_. Vec3_ctor0 :: real Vec3)) > 0"
    by (simp add: Vec3_magnitude_def Vec3_ctor0_def)
  show ?thesis
    using h normalize_nonpositive_unchanged [OF h] by simp
qed

section \<open>Normalising a vector of positive length\<close>

subsection \<open>Over the real numbers\<close>

lemma unit_sum_of_squares:
  fixes a b c :: real
  assumes "sqrt (a * a + b * b + c * c) > 0"
  shows "sqrt (a * (1 / sqrt (a * a + b * b + c * c)) * (a * (1 / sqrt (a * a + b * b + c * c)))
             + b * (1 / sqrt (a * a + b * b + c * c)) * (b * (1 / sqrt (a * a + b * b + c * c)))
             + c * (1 / sqrt (a * a + b * b + c * c)) * (c * (1 / sqrt (a * a + b * b + c * c)))) = 1"
proof -
  define S where "S = a * a + b * b + c * c"
  define L where "L = sqrt S"
  have S0: "0 \<le> S" by (simp add: S_def)
  have L0: "L > 0" using assms by (simp add: L_def S_def)
  have LL: "L * L = S" using S0 by (simp add: L_def)
  have "a * (1 / L) * (a * (1 / L)) + b * (1 / L) * (b * (1 / L)) + c * (1 / L) * (c * (1 / L))
        = S / (L * L)"
    by (simp add: S_def add_divide_distrib)
  also have "\<dots> = 1"
  proof -
    have "S \<noteq> 0" using L0 LL by auto
    then show ?thesis by (simp add: LL)
  qed
  finally show ?thesis by (simp add: L_def S_def)
qed

text \<open>
  With real components and the real square root, a vector of positive length has
  length 1 after \<open>normalize\<close>.
\<close>

lemma Vec3_normalize_real_unit:
  fixes \<sigma> :: "real store"
  assumes "fst (Vec3_magnitude sqrt v \<sigma>) > 0"
  shows "fst (Vec3_magnitude sqrt v (snd (Vec3_normalize sqrt v \<sigma>))) = 1"
  using assms unit_sum_of_squares [of "x (\<sigma> v)" "y (\<sigma> v)" "z (\<sigma> v)"]
  by (simp add: Vec3_normalize_store Vec3_magnitude_def Let_def)

text \<open>
  Over a field, multiplying by the reciprocal is dividing: each component after
  \<open>normalize\<close> is the component before, divided by the length.
\<close>

lemma Vec3_normalize_field_division:
  fixes \<sigma> :: "'a::{field,ord} store"
  assumes "fst (Vec3_magnitude sqrtT v \<sigma>) > 0"
  shows "x (snd (Vec3_normalize sqrtT v \<sigma>) v) = x (\<sigma> v) / fst (Vec3_magnitude sqrtT v \<sigma>)
       \<and> y (snd (Vec3_normalize sqrtT v \<sigma>) v) = y (\<sigma> v) / fst (Vec3_magnitude sqrtT v \<sigma>)
       \<and> z (snd (Vec3_normalize sqrtT v \<sigma>) v) = z (\<sigma> v) / fst (Vec3_magnitude sqrtT v \<sigma>)"
  using assms by (simp add: Vec3_normalize_store Let_def)

subsection \<open>Over the integers\<close>

text \<open>
  Claim C2, at \<open>Vec3i\<close>. The claim: for every vector of strictly positive magnitude and
  any numeric component type, \<open>normalize\<close> makes the magnitude 1 and the member form
  returns a reference to the receiver. At \<open>T = int\<close> and the vector \<open>(2, 0, 0)\<close>, of
  magnitude 2, the reciprocal \<open>1 / 2\<close> is the integer 0: \<open>normalize\<close> returns the
  receiver's address and leaves it the zero vector, of magnitude 0.
\<close>

theorem Vec3_normalize_int_not_unit:
  "fst (Vec3_magnitude sqrt_int 0 (\<lambda>_. Vec3_ctor3 2 0 0)) = 2
   \<and> Vec3_normalize sqrt_int 0 (\<lambda>_. Vec3_ctor3 2 0 0)
       = (0, (\<lambda>_. Vec3_ctor3 2 0 0)(0 := Vec3_ctor3 0 0 0))
   \<and> fst (Vec3_magnitude sqrt_int 0 (snd (Vec3_normalize sqrt_int 0 (\<lambda>_. Vec3_ctor3 2 0 0)))) = 0
   \<and> fst (magnitude sqrt_int 0 (snd (normalize_free sqrt_int 0 (\<lambda>_. Vec3_ctor3 2 0 0)))) = 0"
  by (simp add: Vec3_normalize_def normalize_free_def Vec3_magnitude_def magnitude_def
      Vec3_ctor3_def sqrt_int_4 sqrt_int_0)

text \<open>
  Claim C3, at \<open>Vec3i\<close>. The claim: the components that \<open>normalize\<close> produces by
  multiplying with \<open>1 / len\<close> are the components divided by \<open>len\<close>, for any numeric
  component type. At \<open>T = int\<close> and the vector \<open>(2, 0, 0)\<close> the first component after
  \<open>normalize\<close> is \<open>2 * (1 / 2) = 0\<close> in both forms, and the component divided by the
  length is \<open>2 / 2 = 1\<close>.
\<close>

theorem Vec3_normalize_int_not_division:
  "x (snd (Vec3_normalize sqrt_int 0 (\<lambda>_. Vec3_ctor3 2 0 0)) 0) = 0
   \<and> x (snd (normalize_free sqrt_int 0 (\<lambda>_. Vec3_ctor3 2 0 0)) 0) = 0
   \<and> x (Vec3_ctor3 2 0 0) div fst (Vec3_magnitude sqrt_int 0 (\<lambda>_. Vec3_ctor3 2 0 0)) = 1"
  by (simp add: Vec3_normalize_def normalize_free_def Vec3_magnitude_def magnitude_def
      Vec3_ctor3_def sqrt_int_4)

section \<open>Magnitude and squared magnitude\<close>

text \<open>
  Claim C4. For a vector \<open>(x, y, z)\<close>, \<open>magnitude\<close> returns the square root of
  \<open>x\<^sup>2 + y\<^sup>2 + z\<^sup>2\<close> and \<open>sqrMagnitude\<close> returns \<open>x\<^sup>2 + y\<^sup>2 + z\<^sup>2\<close> itself, both in the
  component type, in the member form and in the free form; for \<open>(3, 4, 0)\<close> they are 5
  and 25, with real and with integer components.
\<close>

theorem magnitude_sqrMagnitude_value:
  fixes \<sigma> :: "'a::semiring_1 store"
  shows "fst (Vec3_magnitude sqrtT v \<sigma>) = sqrtT ((x (\<sigma> v))\<^sup>2 + (y (\<sigma> v))\<^sup>2 + (z (\<sigma> v))\<^sup>2)
       \<and> fst (magnitude sqrtT v \<sigma>) = sqrtT ((x (\<sigma> v))\<^sup>2 + (y (\<sigma> v))\<^sup>2 + (z (\<sigma> v))\<^sup>2)
       \<and> fst (Vec3_sqrMagnitude v \<sigma>) = (x (\<sigma> v))\<^sup>2 + (y (\<sigma> v))\<^sup>2 + (z (\<sigma> v))\<^sup>2
       \<and> fst (sqrMagnitude v \<sigma>) = (x (\<sigma> v))\<^sup>2 + (y (\<sigma> v))\<^sup>2 + (z (\<sigma> v))\<^sup>2
       \<and> fst (Vec3_magnitude sqrt 0 (\<lambda>_. Vec3_ctor3 3 4 0)) = 5
       \<and> fst (Vec3_sqrMagnitude 0 (\<lambda>_. Vec3_ctor3 3 4 (0::real))) = 25
       \<and> fst (magnitude sqrt_int 0 (\<lambda>_. Vec3_ctor3 3 4 0)) = 5
       \<and> fst (sqrMagnitude 0 (\<lambda>_. Vec3_ctor3 3 4 (0::int))) = 25"
  by (simp add: Vec3_magnitude_def magnitude_def Vec3_sqrMagnitude_def sqrMagnitude_def
      Vec3_ctor3_def power2_eq_square sqrt_25 sqrt_int_25)

section \<open>Dot and cross product\<close>

text \<open>
  Claim C5. \<open>dot(a, b)\<close> returns \<open>a.x*b.x + a.y*b.y + a.z*b.z\<close> in the component type and
  \<open>cross(a, b)\<close> returns the new vector
  \<open>(a.y*b.z - a.z*b.y, a.z*b.x - a.x*b.z, a.x*b.y - a.y*b.x)\<close>, in the member form and
  in the free form; for \<open>a = (1, 2, 3)\<close> and \<open>b = (4, 5, 6)\<close> they are 32 and
  \<open>(-3, 6, -3)\<close>.
\<close>

theorem dot_cross_value:
  fixes \<sigma> :: "'a::{times,plus,minus} store"
  shows "fst (Vec3_dot a b \<sigma>) = x (\<sigma> a) * x (\<sigma> b) + y (\<sigma> a) * y (\<sigma> b) + z (\<sigma> a) * z (\<sigma> b)
       \<and> fst (dot a b \<sigma>) = x (\<sigma> a) * x (\<sigma> b) + y (\<sigma> a) * y (\<sigma> b) + z (\<sigma> a) * z (\<sigma> b)
       \<and> fst (Vec3_cross a b \<sigma>) =
           \<lparr>x = y (\<sigma> a) * z (\<sigma> b) - z (\<sigma> a) * y (\<sigma> b),
            y = z (\<sigma> a) * x (\<sigma> b) - x (\<sigma> a) * z (\<sigma> b),
            z = x (\<sigma> a) * y (\<sigma> b) - y (\<sigma> a) * x (\<sigma> b)\<rparr>
       \<and> fst (cross (\<sigma> a) b \<sigma>) =
           \<lparr>x = y (\<sigma> a) * z (\<sigma> b) - z (\<sigma> a) * y (\<sigma> b),
            y = z (\<sigma> a) * x (\<sigma> b) - x (\<sigma> a) * z (\<sigma> b),
            z = x (\<sigma> a) * y (\<sigma> b) - y (\<sigma> a) * x (\<sigma> b)\<rparr>
       \<and> fst (Vec3_dot 0 1 ((\<lambda>_. Vec3_ctor0)(0 := Vec3_ctor3 1 2 3, 1 := Vec3_ctor3 4 5 6)))
           = (32::int)
       \<and> fst (Vec3_cross 0 1 ((\<lambda>_. Vec3_ctor0)(0 := Vec3_ctor3 1 2 3, 1 := Vec3_ctor3 4 5 6)))
           = \<lparr>x = - 3, y = 6, z = - (3::int)\<rparr>"
  by (simp add: Vec3_dot_def dot_def Vec3_cross_def cross_def Vec3_ctor3_def)

section \<open>The arithmetic operators\<close>

text \<open>
  Claim C6. \<open>add\<close> (\<open>operator +\<close>), \<open>sub\<close> (\<open>operator -\<close>) and \<open>scale\<close> (\<open>operator *\<close>)
  return the new vectors \<open>(a.x+b.x, a.y+b.y, a.z+b.z)\<close>, \<open>(a.x-b.x, a.y-b.y, a.z-b.z)\<close>
  and \<open>(a.x*s, a.y*s, a.z*s)\<close>; for \<open>a = (1, 2, 3)\<close> and \<open>b = (4, 5, 6)\<close> the sum is
  \<open>(5, 7, 9)\<close> and the difference \<open>(-3, -3, -3)\<close>.
\<close>

theorem operators_value:
  fixes \<sigma> :: "'a::{times,plus,minus} store"
  shows "fst (Vec3_operator_plus a b \<sigma>) =
           \<lparr>x = x (\<sigma> a) + x (\<sigma> b), y = y (\<sigma> a) + y (\<sigma> b), z = z (\<sigma> a) + z (\<sigma> b)\<rparr>
       \<and> fst (Vec3_operator_minus a b \<sigma>) =
           \<lparr>x = x (\<sigma> a) - x (\<sigma> b), y = y (\<sigma> a) - y (\<sigma> b), z = z (\<sigma> a) - z (\<sigma> b)\<rparr>
       \<and> fst (Vec3_operator_times a s \<sigma>) =
           \<lparr>x = x (\<sigma> a) * s, y = y (\<sigma> a) * s, z = z (\<sigma> a) * s\<rparr>
       \<and> fst (Vec3_operator_plus 0 1 ((\<lambda>_. Vec3_ctor0)(0 := Vec3_ctor3 1 2 3, 1 := Vec3_ctor3 4 5 6)))
           = \<lparr>x = 5, y = 7, z = (9::int)\<rparr>
       \<and> fst (Vec3_operator_minus 0 1 ((\<lambda>_. Vec3_ctor0)(0 := Vec3_ctor3 1 2 3, 1 := Vec3_ctor3 4 5 6)))
           = \<lparr>x = - 3, y = - 3, z = - (3::int)\<rparr>"
  by (simp add: Vec3_operator_plus_def Vec3_operator_minus_def Vec3_operator_times_def
      Vec3_ctor3_def)

section \<open>Member form and free form\<close>

text \<open>
  Claim C7. For \<open>magnitude\<close>, \<open>sqrMagnitude\<close>, \<open>normalize\<close>, \<open>dot\<close> and \<open>cross\<close> the member
  form and the free form give the same result and leave the same store. The free
  \<open>normalize\<close> returns nothing, so the two forms are compared on the store they leave; the
  free \<open>cross\<close> receives a copy of its first operand.
\<close>

theorem member_free_agree:
  "Vec3_magnitude sqrtT v \<sigma> = magnitude sqrtT v \<sigma>
   \<and> Vec3_sqrMagnitude v \<sigma> = sqrMagnitude v \<sigma>
   \<and> snd (Vec3_normalize sqrtT v \<sigma>) = snd (normalize_free sqrtT v \<sigma>)
   \<and> Vec3_dot a b \<sigma> = dot a b \<sigma>
   \<and> Vec3_cross a b \<sigma> = cross (\<sigma> a) b \<sigma>"
  by (simp add: Vec3_magnitude_def magnitude_def Vec3_sqrMagnitude_def sqrMagnitude_def
      Vec3_normalize_def normalize_free_def Vec3_dot_def dot_def Vec3_cross_def cross_def
      Let_def)

section \<open>Which functions write to the store\<close>

text \<open>
  Claim C8. \<open>add\<close>, \<open>sub\<close>, \<open>scale\<close>, \<open>dot\<close>, \<open>cross\<close>, \<open>magnitude\<close> and \<open>sqrMagnitude\<close>
  leave the store, and so every component of every operand, as it was, also when both
  operands are the same object; \<open>normalize\<close> is the one that writes: it turns the real
  vector \<open>(3, 4, 0)\<close> into \<open>(3/5, 4/5, 0)\<close>.
\<close>

theorem only_normalize_mutates:
  "snd (Vec3_operator_plus a b \<sigma>) = \<sigma>
   \<and> snd (Vec3_operator_minus a b \<sigma>) = \<sigma>
   \<and> snd (Vec3_operator_times a s \<sigma>) = \<sigma>
   \<and> snd (Vec3_dot a b \<sigma>) = \<sigma> \<and> snd (dot a b \<sigma>) = \<sigma>
   \<and> snd (Vec3_cross a b \<sigma>) = \<sigma> \<and> snd (cross c b \<sigma>) = \<sigma>
   \<and> snd (Vec3_magnitude sqrtT a \<sigma>) = \<sigma> \<and> snd (magnitude sqrtT a \<sigma>) = \<sigma>
   \<and> snd (Vec3_sqrMagnitude a \<sigma>) = \<sigma> \<and> snd (sqrMagnitude a \<sigma>) = \<sigma>
   \<and> snd (Vec3_normalize sqrt 0 (\<lambda>_. Vec3_ctor3 3 4 0)) 0 = Vec3_ctor3 (3 / 5) (4 / 5) 0
   \<and> snd (normalize_free sqrt 0 (\<lambda>_. Vec3_ctor3 3 4 0)) 0 = Vec3_ctor3 (3 / 5) (4 / 5) 0
   \<and> snd (Vec3_normalize sqrt 0 (\<lambda>_. Vec3_ctor3 3 4 0)) \<noteq> (\<lambda>_. Vec3_ctor3 3 4 0)"
proof -
  have pure: "snd (Vec3_operator_plus a b \<sigma>) = \<sigma>" "snd (Vec3_operator_minus a b \<sigma>) = \<sigma>"
    "snd (Vec3_operator_times a s \<sigma>) = \<sigma>" "snd (Vec3_dot a b \<sigma>) = \<sigma>" "snd (dot a b \<sigma>) = \<sigma>"
    "snd (Vec3_cross a b \<sigma>) = \<sigma>" "snd (cross c b \<sigma>) = \<sigma>"
    "snd (Vec3_magnitude sqrtT a \<sigma>) = \<sigma>" "snd (magnitude sqrtT a \<sigma>) = \<sigma>"
    "snd (Vec3_sqrMagnitude a \<sigma>) = \<sigma>" "snd (sqrMagnitude a \<sigma>) = \<sigma>"
    by (simp_all add: Vec3_operator_plus_def Vec3_operator_minus_def Vec3_operator_times_def
        Vec3_dot_def dot_def Vec3_cross_def cross_def Vec3_magnitude_def magnitude_def
        Vec3_sqrMagnitude_def sqrMagnitude_def)
  have m: "snd (Vec3_normalize sqrt 0 (\<lambda>_. Vec3_ctor3 3 4 0)) 0 = Vec3_ctor3 (3 / 5) (4 / 5) 0"
    by (simp add: Vec3_normalize_def Vec3_magnitude_def Vec3_ctor3_def sqrt_25)
  have f: "snd (normalize_free sqrt 0 (\<lambda>_. Vec3_ctor3 3 4 0)) 0 = Vec3_ctor3 (3 / 5) (4 / 5) 0"
    by (simp add: normalize_free_def magnitude_def Vec3_ctor3_def sqrt_25)
  have "snd (Vec3_normalize sqrt 0 (\<lambda>_. Vec3_ctor3 3 4 0)) 0 \<noteq> (\<lambda>_. Vec3_ctor3 3 4 0) (0::nat)"
    unfolding m by (simp add: Vec3_ctor3_def)
  then have "snd (Vec3_normalize sqrt 0 (\<lambda>_. Vec3_ctor3 3 4 0)) \<noteq> (\<lambda>_. Vec3_ctor3 3 4 0)"
    by metis
  with pure m f show ?thesis by simp
qed

section \<open>Anti-commutativity of the cross product\<close>

text \<open>
  Claim C9. In a commutative ring (the integers, the reals), \<open>cross(a, b)\<close> is
  \<open>cross(b, a)\<close> scaled by \<open>-1\<close>, for the member \<open>cross\<close> and for the free one. The scaled
  vector is the temporary that \<open>cross(b, a)\<close> returns, held at some address \<open>t\<close>.
\<close>

theorem cross_anticommutative:
  fixes \<sigma> :: "'a::comm_ring_1 store"
  shows "fst (Vec3_cross a b \<sigma>)
           = fst (Vec3_operator_times t (- 1) (\<sigma>(t := fst (Vec3_cross b a \<sigma>))))
       \<and> fst (cross (\<sigma> a) b \<sigma>)
           = fst (Vec3_operator_times t (- 1) (\<sigma>(t := fst (cross (\<sigma> b) a \<sigma>))))"
  by (simp add: Vec3_cross_def cross_def Vec3_operator_times_def Vec3_ctor3_def algebra_simps)

section \<open>The constructors of the two headers\<close>

text \<open>
  Claim C10. In \<open>mfcg::Vec3\<close> and in \<open>MFCG::Vec3\<close> alike, the default constructor gives
  \<open>(0, 0, 0)\<close>, the constructor from one scalar \<open>t\<close> gives \<open>(t, t, t)\<close> and the constructor
  from three scalars gives exactly these; so each constructor of the one header builds
  the same components as its namesake in the other.
\<close>

theorem constructors_value:
  "x (Vec3_ctor0 :: 'a::zero Vec3) = 0 \<and> y (Vec3_ctor0 :: 'a Vec3) = 0 \<and> z (Vec3_ctor0 :: 'a Vec3) = 0
   \<and> MFCG_x (MFCG_Vec3_ctor0 :: 'a MFCG_Vec3) = 0 \<and> MFCG_y (MFCG_Vec3_ctor0 :: 'a MFCG_Vec3) = 0
   \<and> MFCG_z (MFCG_Vec3_ctor0 :: 'a MFCG_Vec3) = 0
   \<and> x (Vec3_ctor1 t) = t \<and> y (Vec3_ctor1 t) = t \<and> z (Vec3_ctor1 t) = t
   \<and> MFCG_x (MFCG_Vec3_ctor1 t) = t \<and> MFCG_y (MFCG_Vec3_ctor1 t) = t \<and> MFCG_z (MFCG_Vec3_ctor1 t) = t
   \<and> x (Vec3_ctor3 p q r) = p \<and> y (Vec3_ctor3 p q r) = q \<and> z (Vec3_ctor3 p q r) = r
   \<and> MFCG_x (MFCG_Vec3_ctor3 p q r) = p \<and> MFCG_y (MFCG_Vec3_ctor3 p q r) = q
   \<and> MFCG_z (MFCG_Vec3_ctor3 p q r) = r
   \<and> x (Vec3_ctor0 :: 'a Vec3) = MFCG_x (MFCG_Vec3_ctor0 :: 'a MFCG_Vec3)
   \<and> y (Vec3_ctor0 :: 'a Vec3) = MFCG_y (MFCG_Vec3_ctor0 :: 'a MFCG_Vec3)
   \<and> z (Vec3_ctor0 :: 'a Vec3) = MFCG_z (MFCG_Vec3_ctor0 :: 'a MFCG_Vec3)
   \<and> x (Vec3_ctor1 t) = MFCG_x (MFCG_Vec3_ctor1 t)
   \<and> y (Vec3_ctor1 t) = MFCG_y (MFCG_Vec3_ctor1 t)
   \<and> z (Vec3_ctor1 t) = MFCG_z (MFCG_Vec3_ctor1 t)
   \<and> x (Vec3_ctor3 p q r) = MFCG_x (MFCG_Vec3_ctor3 p q r)
   \<and> y (Vec3_ctor3 p q r) = MFCG_y (MFCG_Vec3_ctor3 p q r)
   \<and> z (Vec3_ctor3 p q r) = MFCG_z (MFCG_Vec3_ctor3 p q r)"
  by (simp add: Vec3_ctor0_def Vec3_ctor1_def Vec3_ctor3_def
      MFCG_Vec3_ctor0_def MFCG_Vec3_ctor1_def MFCG_Vec3_ctor3_def)

end
